theory Spec2Isabelle
  imports Complex_Main
begin

section \<open>JavaScript values\<close>

text \<open>
  The probe is JavaScript: its query parameters, counters, failure fields and metric
  values are dynamically typed. The values that occur are \<open>undefined\<close>, \<open>null\<close>,
  booleans, numbers, strings and arrays. Numbers are IEEE doubles in the program; here a
  finite number is an exact rational, next to \<open>NaN\<close> and the two infinities (rounding and
  the sign of zero are not modelled; every number the probe computes itself is an integer
  or \<open>NaN\<close>). Strings are lists of 8-bit characters and are read as ASCII.
\<close>

datatype jsnum = NaN | PInf | NInf | Num rat

datatype jsval =
    JUndefined
  | JNull
  | JBool bool
  | JNum jsnum
  | JStr string
  | JArr "jsval list"

datatype js_error = TypeError | SyntaxError | URIError

text \<open>\<open>a + b\<close> and \<open>a - b\<close> on numbers.\<close>

fun num_add :: "jsnum \<Rightarrow> jsnum \<Rightarrow> jsnum" where
  "num_add NaN _ = NaN"
| "num_add _ NaN = NaN"
| "num_add PInf NInf = NaN"
| "num_add NInf PInf = NaN"
| "num_add PInf _ = PInf"
| "num_add _ PInf = PInf"
| "num_add NInf _ = NInf"
| "num_add _ NInf = NInf"
| "num_add (Num a) (Num b) = Num (a + b)"

fun num_neg :: "jsnum \<Rightarrow> jsnum" where
  "num_neg NaN = NaN"
| "num_neg PInf = NInf"
| "num_neg NInf = PInf"
| "num_neg (Num a) = Num (- a)"

definition num_sub :: "jsnum \<Rightarrow> jsnum \<Rightarrow> jsnum" where
  "num_sub a b = num_add a (num_neg b)"

text \<open>\<open>value / 1000\<close>, the only division of the probe.\<close>

fun div1000 :: "jsnum \<Rightarrow> jsnum" where
  "div1000 (Num a) = Num (a / 1000)"
| "div1000 n = n"

text \<open>\<open>a === b\<close> on two numbers: \<open>NaN\<close> equals nothing.\<close>

definition num_eq :: "jsnum \<Rightarrow> jsnum \<Rightarrow> bool" where
  "num_eq a b = (a \<noteq> NaN \<and> b \<noteq> NaN \<and> a = b)"

text \<open>\<open>a <= b\<close> on two numbers: false as soon as one side is \<open>NaN\<close>.\<close>

fun num_le :: "jsnum \<Rightarrow> jsnum \<Rightarrow> bool" where
  "num_le NaN _ = False"
| "num_le _ NaN = False"
| "num_le NInf _ = True"
| "num_le _ PInf = True"
| "num_le PInf _ = False"
| "num_le _ NInf = False"
| "num_le (Num a) (Num b) = (a \<le> b)"

text \<open>Truthiness, as \<open>!!v\<close>, \<open>v ? a : b\<close>, \<open>v || w\<close> and \<open>v && w\<close> read it.\<close>

fun truthy :: "jsval \<Rightarrow> bool" where
  "truthy JUndefined = False"
| "truthy JNull = False"
| "truthy (JBool b) = b"
| "truthy (JNum n) = (n \<noteq> NaN \<and> n \<noteq> Num 0)"
| "truthy (JStr s) = (s \<noteq> [])"
| "truthy (JArr _) = True"

definition js_or :: "jsval \<Rightarrow> jsval \<Rightarrow> jsval" where
  "js_or a b = (if truthy a then a else b)"

text \<open>\<open>a === b\<close> on the values the probe compares: two arrays are never the same object here.\<close>

fun strict_eq :: "jsval \<Rightarrow> jsval \<Rightarrow> bool" where
  "strict_eq (JNum a) (JNum b) = num_eq a b"
| "strict_eq (JArr _) (JArr _) = False"
| "strict_eq a b = (a = b)"

subsection \<open>Strings and numbers\<close>

definition is_ws :: "char \<Rightarrow> bool" where
  "is_ws c = (c \<in> set [CHR 0x09, CHR 0x0A, CHR 0x0B, CHR 0x0C, CHR 0x0D, CHR '' ''])"

definition digit_val :: "char \<Rightarrow> nat option" where
  "digit_val c =
     (let n = (of_char c :: nat) in
      if 48 \<le> n \<and> n \<le> 57 then Some (n - 48)
      else if 97 \<le> n \<and> n \<le> 122 then Some (n - 87)
      else if 65 \<le> n \<and> n \<le> 90 then Some (n - 55)
      else None)"

definition is_digit :: "nat \<Rightarrow> char \<Rightarrow> bool" where
  "is_digit radix c = (case digit_val c of None \<Rightarrow> False | Some d \<Rightarrow> d < radix)"

definition digits_val :: "nat \<Rightarrow> string \<Rightarrow> nat" where
  "digits_val radix s = foldl (\<lambda>a c. a * radix + (case digit_val c of None \<Rightarrow> 0 | Some d \<Rightarrow> d)) 0 s"

definition to_lower :: "char \<Rightarrow> char" where
  "to_lower c = (let n = (of_char c :: nat) in if 65 \<le> n \<and> n \<le> 90 then char_of (n + 32) else c)"

definition starts_with :: "string \<Rightarrow> string \<Rightarrow> bool" where
  "starts_with p s = (take (length p) s = p)"

text \<open>
  The longest prefix of \<open>s\<close> that is a \<open>StrUnsignedDecimalLiteral\<close> of ECMAScript
  (\<open>Infinity\<close>, \<open>12\<close>, \<open>12.\<close>, \<open>12.5\<close>, \<open>.5\<close>, each with an optional exponent), with
  its value and the rest of the string; \<open>None\<close> when no prefix is one.
\<close>

definition exponent_part :: "string \<Rightarrow> (int \<times> string) option" where
  "exponent_part s =
     (case s of
        [] \<Rightarrow> None
      | c # r \<Rightarrow>
          if c = CHR ''e'' \<or> c = CHR ''E'' then
            (let (neg, r1) =
                   (case r of
                      [] \<Rightarrow> (False, r)
                    | d # r' \<Rightarrow> if d = CHR ''-'' then (True, r') else if d = CHR ''+'' then (False, r') else (False, r));
                 ds = takeWhile (is_digit 10) r1
             in if ds = [] then None
                else Some ((if neg then - int (digits_val 10 ds) else int (digits_val 10 ds)),
                           dropWhile (is_digit 10) r1))
          else None)"

definition scale10 :: "rat \<Rightarrow> int \<Rightarrow> rat" where
  "scale10 m e = (if 0 \<le> e then m * 10 ^ nat e else m / 10 ^ nat (- e))"

definition unsigned_decimal :: "string \<Rightarrow> (jsnum \<times> string) option" where
  "unsigned_decimal s =
     (if starts_with ''Infinity'' s then Some (PInf, drop 8 s)
      else
        let ip = takeWhile (is_digit 10) s;
            r1 = dropWhile (is_digit 10) s;
            (fp, r2, dot) =
              (case r1 of
                 [] \<Rightarrow> ([], r1, False)
               | c # r \<Rightarrow>
                   if c = CHR ''.'' \<and> (ip \<noteq> [] \<or> takeWhile (is_digit 10) r \<noteq> [])
                   then (takeWhile (is_digit 10) r, dropWhile (is_digit 10) r, True)
                   else ([], r1, False))
        in if ip = [] \<and> fp = [] then None
           else
             let m = of_nat (digits_val 10 ip) + of_nat (digits_val 10 fp) / 10 ^ length fp
             in (case exponent_part r2 of
                   None \<Rightarrow> Some (Num m, r2)
                 | Some (e, r3) \<Rightarrow> Some (Num (scale10 m e), r3)))"

text \<open>A \<open>StrDecimalLiteral\<close>: an optional sign before the unsigned literal.\<close>

definition signed_decimal :: "string \<Rightarrow> (jsnum \<times> string) option" where
  "signed_decimal s =
     (case s of
        [] \<Rightarrow> None
      | c # r \<Rightarrow>
          if c = CHR ''-'' then map_option (\<lambda>(v, t). (num_neg v, t)) (unsigned_decimal r)
          else if c = CHR ''+'' then unsigned_decimal r
          else unsigned_decimal s)"

text \<open>\<open>0x1F\<close>, \<open>0o17\<close>, \<open>0b101\<close>: the whole string, no sign.\<close>

definition non_decimal :: "string \<Rightarrow> jsnum option" where
  "non_decimal s =
     (case s of
        z # p # ds \<Rightarrow>
          (let radix = (if to_lower p = CHR ''x'' then 16 else if to_lower p = CHR ''o'' then 8
                        else if to_lower p = CHR ''b'' then 2 else 0)
           in if z = CHR ''0'' \<and> radix \<noteq> 0 \<and> ds \<noteq> [] \<and> list_all (is_digit radix) ds
              then Some (Num (of_nat (digits_val radix ds))) else None)
      | _ \<Rightarrow> None)"

definition trim_ws :: "string \<Rightarrow> string" where
  "trim_ws s = rev (dropWhile is_ws (rev (dropWhile is_ws s)))"

text \<open>\<open>Number(s)\<close> on a string (\<open>StringToNumber\<close>).\<close>

definition string_to_number :: "string \<Rightarrow> jsnum" where
  "string_to_number s =
     (let t = trim_ws s in
      if t = [] then Num 0
      else case non_decimal t of
             Some n \<Rightarrow> n
           | None \<Rightarrow> (case signed_decimal t of
                        Some (v, []) \<Rightarrow> v
                      | _ \<Rightarrow> NaN))"

text \<open>\<open>parseInt(s, 10)\<close> and \<open>parseFloat(s)\<close> on a string.\<close>

definition parseInt10 :: "string \<Rightarrow> jsnum" where
  "parseInt10 s =
     (let t = dropWhile is_ws s;
          (neg, u) =
            (case t of
               [] \<Rightarrow> (False, t)
             | c # r \<Rightarrow> if c = CHR ''-'' then (True, r) else if c = CHR ''+'' then (False, r) else (False, t));
          ds = takeWhile (is_digit 10) u
      in if ds = [] then NaN
         else Num (if neg then - of_nat (digits_val 10 ds) else of_nat (digits_val 10 ds)))"

definition parseFloat :: "string \<Rightarrow> jsnum" where
  "parseFloat s = (case signed_decimal (dropWhile is_ws s) of None \<Rightarrow> NaN | Some (v, _) \<Rightarrow> v)"

subsection \<open>Library functions outside the repository\<close>

text \<open>
  The probe calls Node's \<open>url.parse\<close> and \<open>url.format\<close>, the regular expressions of
  the language, the number formatting of \<open>String(n)\<close>, \<open>moment\<close>, and two helpers of
  \<open>../utils\<close> whose source is not part of the sources at hand
  (\<open>parseBooleanQueryParam\<close>, \<open>parseHttpParamsQueryParam\<close>). They are parameters of
  the model, collected in one record; every theorem below holds for all of them unless it
  states what it needs. A function that can throw returns \<open>Inl\<close> of the error.
\<close>

record parsed_url =
  url_protocol :: "string option"
  url_host :: "string option"
  url_pathname :: "string option"
  url_href :: string

record js_env =
  parseBooleanQueryParam :: "jsval \<Rightarrow> jsval \<Rightarrow> jsval"
  parseHttpParamsQueryParam :: "jsval \<Rightarrow> jsval"
  url_parse :: "jsval \<Rightarrow> js_error + parsed_url"
  url_format :: "parsed_url \<Rightarrow> string"
  regexp_match :: "jsval \<Rightarrow> js_error + (string \<Rightarrow> string option)"
  number_to_string :: "jsnum \<Rightarrow> string"
  moment_utc_format :: "jsval \<Rightarrow> string"

fun join :: "string \<Rightarrow> string list \<Rightarrow> string" where
  "join sep [] = []"
| "join sep [x] = x"
| "join sep (x # y # ys) = x @ sep @ join sep (y # ys)"

text \<open>\<open>String(v)\<close> and template interpolation; an array joins its elements with commas.\<close>

fun to_string :: "js_env \<Rightarrow> jsval \<Rightarrow> string" where
  "to_string E JUndefined = ''undefined''"
| "to_string E JNull = ''null''"
| "to_string E (JBool b) = (if b then ''true'' else ''false'')"
| "to_string E (JNum n) = number_to_string E n"
| "to_string E (JStr s) = s"
| "to_string E (JArr xs) =
     join '','' (map (\<lambda>x. if x = JUndefined \<or> x = JNull then [] else to_string E x) xs)"

text \<open>\<open>Number(v)\<close>.\<close>

fun to_number :: "js_env \<Rightarrow> jsval \<Rightarrow> jsnum" where
  "to_number E JUndefined = NaN"
| "to_number E JNull = Num 0"
| "to_number E (JBool b) = Num (if b then 1 else 0)"
| "to_number E (JNum n) = n"
| "to_number E (JStr s) = string_to_number s"
| "to_number E (JArr xs) = string_to_number (to_string E (JArr xs))"

text \<open>lodash: \<open>isArray\<close>, \<open>compact\<close> (drops the falsy elements), \<open>last\<close>.\<close>

fun isArray :: "jsval \<Rightarrow> bool" where
  "isArray (JArr _) = True"
| "isArray _ = False"

definition compact :: "jsval list \<Rightarrow> jsval list" where
  "compact xs = filter truthy xs"

definition last_js :: "jsval list \<Rightarrow> jsval" where
  "last_js xs = (if xs = [] then JUndefined else last xs)"

section \<open>The data of the probe\<close>

text \<open>\<open>ctx.query\<close>: the parameter bag of one probe request.\<close>

record query_bag =
  followRedirects :: jsval
  http_method :: jsval
  header :: jsval
  allowUnauthorized :: jsval
  expectHttpRedirects :: jsval
  expectHttpRedirectTo :: jsval
  expectHttpResponseBodyMatch :: jsval
  expectHttpResponseBodyMismatch :: jsval
  expectHttpSecure :: jsval
  expectHttpStatusCode :: jsval
  expectHttpVersion :: jsval

text \<open>\<open>reqOptions\<close>: what one leg is issued with (the parsed target is spread into it).\<close>

record reqOptions =
  req_method :: jsval
  req_url :: parsed_url
  req_agent :: bool
  req_headers :: jsval
  req_rejectUnauthorized :: bool

text \<open>
  \<open>state\<close>: the object threaded through the redirect chain. It holds the requests issued
  so far (\<open>state.requests\<close>; an absent list and an empty one are used alike) and the
  counters that \<open>increase\<close> writes, by their property names: \<open>dnsLookup\<close>,
  \<open>tcpConnection\<close>, \<open>tlsHandshake\<close>, \<open>firstByte\<close>, \<open>contentTransfer\<close>,
  \<open>redirects\<close>. A key that is not set reads \<open>undefined\<close> (\<open>None\<close>).
\<close>

record probe_state =
  requests :: "reqOptions list"
  counters :: "string \<Rightarrow> jsnum option"

definition empty_state :: probe_state where
  "empty_state = \<lparr>requests = [], counters = (\<lambda>_. None)\<rparr>"

text \<open>\<open>times\<close>: the milestones of one leg, a fresh object for every leg.\<close>

record times =
  start :: int
  dnsLookupAt :: "int option"
  tcpConnectionAt :: "int option"
  tlsHandshakeAt :: "int option"
  firstByteAt :: "int option"

text \<open>
  The response of a leg, with its headers as the list of their names (in lower case) and
  values; \<open>body\<close> is assigned when the response has ended.
\<close>

record response =
  statusCode :: int
  headers :: "(string \<times> string) list"
  httpVersion :: string
  body :: jsval

record failure =
  actual :: "jsval option"
  cause :: string
  description :: string
  expected :: "jsval option"

record metric =
  metric_name :: string
  metric_type :: string
  metric_value :: jsval
  metric_description :: string
  metric_tags :: "(string \<times> jsval) list option"

record probe_result =
  failures :: "failure list"
  metrics :: "metric list"
  success :: bool

text \<open>
  \<open>req.connection\<close> when the metrics are assembled: no socket, a plain socket (no
  \<open>getPeerCertificate\<close>), or a TLS socket with what \<open>getPeerCertificate()\<close> returns:
  nothing, or a certificate with its \<open>valid_to\<close> property.
\<close>

datatype connection = PlainSocket | TlsSocket "jsval option"

section \<open>utils\<close>

text \<open>
  \<^verbatim>\<open>counters[key] = (counters[key] || 0) + by\<close>
\<close>

definition increase :: "probe_state \<Rightarrow> string \<Rightarrow> jsnum \<Rightarrow> probe_state" where
  "increase st key amount =
     st\<lparr>counters := (counters st)
          (key := Some (num_add
             (case counters st key of
                None \<Rightarrow> Num 0
              | Some n \<Rightarrow> if truthy (JNum n) then n else Num 0)
             amount))\<rparr>"

definition toArray :: "jsval \<Rightarrow> jsval list" where
  "toArray v = (case v of JUndefined \<Rightarrow> [] | JArr xs \<Rightarrow> xs | _ \<Rightarrow> [v])"

text \<open>
  \<open>isFalseString\<close> and \<open>isTrueString\<close>: a string that is, whatever the case of its
  letters, one of \<open>0\<close>, \<open>n\<close>, \<open>no\<close>, \<open>f\<close>, \<open>false\<close>, respectively \<open>1\<close>,
  \<open>y\<close>, \<open>yes\<close>, \<open>t\<close>, \<open>true\<close>.
\<close>

definition isFalseString :: "jsval \<Rightarrow> bool" where
  "isFalseString v =
     (case v of
        JStr s \<Rightarrow> map to_lower s \<in> set [''0'', ''n'', ''no'', ''f'', ''false'']
      | _ \<Rightarrow> False)"

definition isTrueString :: "jsval \<Rightarrow> bool" where
  "isTrueString v =
     (case v of
        JStr s \<Rightarrow> map to_lower s \<in> set [''1'', ''y'', ''yes'', ''t'', ''true'']
      | _ \<Rightarrow> False)"

text \<open>
  Modelled from the spec: \<open>buildMetric\<close> is imported from \<open>../utils\<close> and its source
  is not at hand. A metric is a name, a unit, a value, a description and an optional tag
  mapping; the function is taken to store its arguments as they are.
\<close>

definition buildMetric ::
  "string \<Rightarrow> string \<Rightarrow> jsval \<Rightarrow> string \<Rightarrow> (string \<times> jsval) list option \<Rightarrow> metric" where
  "buildMetric n t v d tags =
     \<lparr>metric_name = n, metric_type = t, metric_value = v, metric_description = d, metric_tags = tags\<rparr>"

section \<open>The validators\<close>

definition array_join :: "js_env \<Rightarrow> string \<Rightarrow> jsval list \<Rightarrow> string" where
  "array_join E sep xs =
     join sep (map (\<lambda>x. if x = JUndefined \<or> x = JNull then [] else to_string E x) xs)"

text \<open>\<open>state.redirects\<close>, \<open>state.tlsHandshake\<close>, ... read as a value.\<close>

definition counter_val :: "probe_state \<Rightarrow> string \<Rightarrow> jsval" where
  "counter_val st key = (case counters st key of None \<Rightarrow> JUndefined | Some n \<Rightarrow> JNum n)"

definition validateHttpRedirects ::
  "js_env \<Rightarrow> query_bag \<Rightarrow> probe_state \<Rightarrow> failure list \<Rightarrow> failure list" where
  "validateHttpRedirects E q st fs =
     (let expectedRedirects =
            (if expectHttpRedirects q \<noteq> JUndefined then expectHttpRedirects q
             else if truthy (expectHttpRedirectTo q) then JStr ''yes''
             else JUndefined);
          expectedRedirectCount = to_number E expectedRedirects
      in if expectedRedirectCount \<noteq> NaN
            \<and> \<not> strict_eq (counter_val st ''redirects'') (JNum expectedRedirectCount)
         then fs @ [\<lparr>actual = Some (counter_val st ''redirects''),
                      cause = ''invalidHttpRedirectCount'',
                      description = ''Expected the HTTP request to be redirected exactly ''
                        @ to_string E (JNum expectedRedirectCount) @ '' time''
                        @ (if \<not> num_eq expectedRedirectCount (Num 1) then ''s'' else []),
                      expected = Some (JNum expectedRedirectCount)\<rparr>]
         else
           let shouldRedirect = parseBooleanQueryParam E expectedRedirects JNull
           in if strict_eq shouldRedirect (JBool True) \<and> \<not> truthy (counter_val st ''redirects'')
              then fs @ [\<lparr>actual = None,
                           cause = ''missingHttpRedirect'',
                           description = ''Expected the server to send an HTTP redirection'',
                           expected = None\<rparr>]
              else if strict_eq shouldRedirect (JBool False) \<and> truthy (counter_val st ''redirects'')
              then fs @ [\<lparr>actual = Some (counter_val st ''redirects''),
                           cause = ''unexpectedHttpRedirect'',
                           description = ''Did not expect the server to send an HTTP redirection'',
                           expected = Some (JNum (Num 0))\<rparr>]
              else fs)"

text \<open>
  \<open>url.parse\<close> throws on what it cannot parse, and reading a property of
  \<open>last(state.requests)\<close> throws when no request was issued.
\<close>

definition validateHttpRedirectTarget ::
  "js_env \<Rightarrow> query_bag \<Rightarrow> probe_state \<Rightarrow> failure list \<Rightarrow> js_error + failure list" where
  "validateHttpRedirectTarget E q st fs =
     (if expectHttpRedirectTo q = JUndefined then Inr fs
      else case url_parse E (expectHttpRedirectTo q) of
             Inl e \<Rightarrow> Inl e
           | Inr expectedRedirect \<Rightarrow>
               if requests st = [] then Inl TypeError
               else
                 let lastRequest = req_url (last (requests st))
                 in if url_protocol expectedRedirect \<noteq> url_protocol lastRequest
                       \<or> url_host expectedRedirect \<noteq> url_host lastRequest
                       \<or> url_pathname expectedRedirect \<noteq> url_pathname lastRequest
                    then Inr (fs @ [\<lparr>actual = Some (JStr (url_format E lastRequest)),
                                      cause = ''invalidHttpRedirectLocation'',
                                      description = ''Expected the request to be redirected to ''
                                        @ to_string E (expectHttpRedirectTo q),
                                      expected = Some (JStr (url_format E expectedRedirect))\<rparr>])
                    else Inr fs)"

text \<open>The two loops of \<open>validateHttpResponseBody\<close>; \<open>new RegExp\<close> can throw.\<close>

fun body_match_loop :: "js_env \<Rightarrow> string \<Rightarrow> jsval list \<Rightarrow> failure list \<Rightarrow> js_error + failure list" where
  "body_match_loop E b [] fs = Inr fs"
| "body_match_loop E b (expectedMatch # rest) fs =
     (case regexp_match E expectedMatch of
        Inl e \<Rightarrow> Inl e
      | Inr re \<Rightarrow>
          body_match_loop E b rest
            (if re b = None
             then fs @ [\<lparr>actual = None,
                          cause = ''httpResponseBodyMismatch'',
                          description = ''Expected the HTTP response body to match the following regular expression: ''
                            @ to_string E expectedMatch,
                          expected = Some expectedMatch\<rparr>]
             else fs))"

fun body_mismatch_loop :: "js_env \<Rightarrow> string \<Rightarrow> jsval list \<Rightarrow> failure list \<Rightarrow> js_error + failure list" where
  "body_mismatch_loop E b [] fs = Inr fs"
| "body_mismatch_loop E b (expectedMismatch # rest) fs =
     (case regexp_match E expectedMismatch of
        Inl e \<Rightarrow> Inl e
      | Inr re \<Rightarrow>
          body_mismatch_loop E b rest
            (case re b of
               Some m \<Rightarrow>
                 fs @ [\<lparr>actual = Some (JStr m),
                         cause = ''unexpectedHttpResponseBodyMatch'',
                         description = ''Did not expect the HTTP response body to match the following regular expression: ''
                           @ to_string E expectedMismatch,
                         expected = Some expectedMismatch\<rparr>]
             | None \<Rightarrow> fs))"

definition validateHttpResponseBody ::
  "js_env \<Rightarrow> query_bag \<Rightarrow> response \<Rightarrow> failure list \<Rightarrow> js_error + failure list" where
  "validateHttpResponseBody E q res fs =
     (let b = to_string E (body res)
      in case body_match_loop E b (toArray (expectHttpResponseBodyMatch q)) fs of
           Inl e \<Rightarrow> Inl e
         | Inr fs1 \<Rightarrow> body_mismatch_loop E b (toArray (expectHttpResponseBodyMismatch q)) fs1)"

definition validateHttpSecurity ::
  "js_env \<Rightarrow> query_bag \<Rightarrow> probe_state \<Rightarrow> failure list \<Rightarrow> failure list" where
  "validateHttpSecurity E q st fs =
     (let expectSecure = parseBooleanQueryParam E (last_js (toArray (expectHttpSecure q))) JNull
      in if strict_eq expectSecure (JBool True) \<and> counter_val st ''tlsHandshake'' = JUndefined
         then fs @ [\<lparr>actual = None,
                      cause = ''insecureHttp'',
                      description = ''Expected the server to use SSL/TLS for the request (or final redirect)'',
                      expected = None\<rparr>]
         else if strict_eq expectSecure (JBool False) \<and> counter_val st ''tlsHandshake'' \<noteq> JUndefined
         then fs @ [\<lparr>actual = None,
                      cause = ''unexpectedlySecureHttp'',
                      description = ''Did not expect the server to use SSL/TLS for the request (or final redirect)'',
                      expected = None\<rparr>]
         else fs)"

text \<open>
  \<^verbatim>\<open>code.match(/^([1-5])xx$/i)\<close>: the captured digit, when the string is one of
  \<open>1\<close> to \<open>5\<close> followed by two \<open>x\<close> of either case.
\<close>

definition rangeMatch :: "string \<Rightarrow> string option" where
  "rangeMatch code =
     (case code of
        [d, x1, x2] \<Rightarrow>
          if d \<in> set ''12345'' \<and> to_lower x1 = CHR ''x'' \<and> to_lower x2 = CHR ''x''
          then Some [d] else None
      | _ \<Rightarrow> None)"

fun mul100 :: "jsnum \<Rightarrow> jsnum" where
  "mul100 (Num a) = Num (a * 100)"
| "mul100 n = n"

text \<open>
  The loop of \<open>validateHttpStatusCode\<close> over the expected codes: \<open>True\<close> when it
  returns from the function (a code matched), \<open>False\<close> when it runs to its end.
\<close>

fun status_code_loop :: "js_env \<Rightarrow> int \<Rightarrow> jsval list \<Rightarrow> bool" where
  "status_code_loop E act [] = False"
| "status_code_loop E act (code # rest) =
     (case code of
        JStr s \<Rightarrow>
          if (case rangeMatch s of
                None \<Rightarrow> False
              | Some g \<Rightarrow>
                  let rangeStart = mul100 (parseInt10 g)
                  in num_le rangeStart (Num (of_int act))
                     \<and> num_le (Num (of_int act)) (num_add rangeStart (Num 99)))
          then True
          else if (let asNumber = to_number E code
                   in asNumber \<noteq> NaN \<and> num_eq asNumber (Num (of_int act)))
          then True
          else status_code_loop E act rest
      | _ \<Rightarrow> status_code_loop E act rest)"

text \<open>
  When \<open>ctx.query.expectHttpStatusCode\<close> is an array, \<open>expected\<close> is that very array,
  and \<open>expected.push('2xx', '3xx')\<close> writes into it: the function returns the query as it
  leaves it, next to the failures.
\<close>

definition validateHttpStatusCode ::
  "js_env \<Rightarrow> query_bag \<Rightarrow> response \<Rightarrow> failure list \<Rightarrow> query_bag \<times> failure list" where
  "validateHttpStatusCode E q res fs =
     (let act = statusCode res;
          given = expectHttpStatusCode q;
          expected0 = (case given of JArr xs \<Rightarrow> xs | _ \<Rightarrow> compact [given]);
          expected1 = (if expected0 = [] then expected0 @ [JStr ''2xx'', JStr ''3xx''] else expected0);
          q1 = (if isArray given then q\<lparr>expectHttpStatusCode := JArr expected1\<rparr> else q)
      in if status_code_loop E act expected1 then (q1, fs)
         else (q1, fs @ [\<lparr>actual = Some (JNum (Num (of_int act))),
                           cause = ''invalidHttpStatusCode'',
                           description = ''Expected HTTP status code to match one of the following: ''
                             @ array_join E '', '' expected1,
                           expected = Some (JArr (toArray (expectHttpStatusCode q1)))\<rparr>]))"

definition validateHttpVersion ::
  "js_env \<Rightarrow> query_bag \<Rightarrow> response \<Rightarrow> failure list \<Rightarrow> failure list" where
  "validateHttpVersion E q res fs =
     (let act = httpVersion res;
          expd = expectHttpVersion q
      in if truthy expd \<and> act \<noteq> to_string E expd
         then fs @ [\<lparr>actual = Some (JStr act),
                      cause = ''invalidHttpVersion'',
                      description = ''Expected HTTP version to be '' @ [CHR 0x22] @ to_string E expd @ [CHR 0x22],
                      expected = Some (JNum (parseFloat (to_string E expd)))\<rparr>]
         else fs)"

section \<open>Metric assembly\<close>

definition getHttpCertificateExpiry :: "js_env \<Rightarrow> connection option \<Rightarrow> jsval" where
  "getHttpCertificateExpiry E conn =
     (case conn of
        None \<Rightarrow> JNull
      | Some PlainSocket \<Rightarrow> JNull
      | Some (TlsSocket None) \<Rightarrow> JNull
      | Some (TlsSocket (Some valid_to)) \<Rightarrow> JStr (moment_utc_format E valid_to))"

text \<open>
  The six validators, run in the order of the source when there is a response
  (\<^verbatim>\<open>if (res) { ... }\<close>). An exception of one of them ends the block.
\<close>

definition validators ::
  "js_env \<Rightarrow> query_bag \<Rightarrow> response \<Rightarrow> probe_state \<Rightarrow> js_error + (query_bag \<times> failure list)" where
  "validators E q res st =
     (let f1 = validateHttpRedirects E q st []
      in case validateHttpRedirectTarget E q st f1 of
           Inl e \<Rightarrow> Inl e
         | Inr f2 \<Rightarrow>
             (case validateHttpResponseBody E q res f2 of
                Inl e \<Rightarrow> Inl e
              | Inr f3 \<Rightarrow>
                  let f4 = validateHttpSecurity E q st f3;
                      (q1, f5) = validateHttpStatusCode E q res f4
                  in Inr (q1, validateHttpVersion E q1 res f5)))"

text \<open>
  The duration metrics: \<open>pick\<close> keeps the listed keys that \<open>state\<close> has, in the listed
  order, and \<open>each\<close> visits them in that order.
\<close>

definition duration_metrics :: "probe_state \<Rightarrow> metric list" where
  "duration_metrics st =
     concat (map (\<lambda>phase.
         case counters st phase of
           None \<Rightarrow> []
         | Some v \<Rightarrow>
             [buildMetric ''httpDuration'' ''seconds'' (JNum (div1000 v))
                ''Duration of the HTTP request(s) by phase, summed over all redirects, in seconds''
                (Some [(''phase'', JStr phase)])])
       [''contentTransfer'', ''dnsLookup'', ''firstByte'', ''tcpConnection'', ''tlsHandshake''])"

definition getHttpMetrics ::
  "js_env \<Rightarrow> query_bag \<Rightarrow> connection option \<Rightarrow> response option \<Rightarrow> probe_state
     \<Rightarrow> js_error + (probe_result \<times> query_bag)" where
  "getHttpMetrics E q conn res st =
     (case (case res of None \<Rightarrow> Inr (q, []) | Some r \<Rightarrow> validators E q r st) of
        Inl e \<Rightarrow> Inl e
      | Inr (q1, fs) \<Rightarrow>
          Inr (\<lparr>failures = fs,
                metrics =
                  [buildMetric ''httpCertificateExpiry'' ''datetime'' (getHttpCertificateExpiry E conn)
                     ''Expiration date of the SSL certificate'' None,
                   buildMetric ''httpContentLength'' ''bytes''
                     (case res of
                        None \<Rightarrow> JNull
                      | Some r \<Rightarrow>
                          (case map_of (headers r) ''content-length'' of
                             None \<Rightarrow> JNull
                           | Some h \<Rightarrow> if truthy (JStr h) then JNum (parseInt10 h) else JNull))
                     ''Length of the HTTP response entity in bytes'' None]
                  @ duration_metrics st
                  @ [buildMetric ''httpRedirects'' ''quantity''
                       (js_or (counter_val st ''redirects'') (JNum (Num 0)))
                       ''Number of times HTTP 301 or 302 redirects were followed'' None,
                     buildMetric ''httpSecure'' ''boolean''
                       (JBool (counter_val st ''tlsHandshake'' \<noteq> JUndefined))
                       ''Indicates whether SSL/TLS was used for the final request'' None,
                     buildMetric ''httpStatusCode'' ''number''
                       (case res of None \<Rightarrow> JNull | Some r \<Rightarrow> JNum (Num (of_int (statusCode r))))
                       ''HTTP status code of the final response'' None,
                     buildMetric ''httpVersion'' ''number''
                       (case res of None \<Rightarrow> JNull | Some r \<Rightarrow> JNum (parseFloat (httpVersion r)))
                       ''HTTP version of the response'' None],
                success = (res \<noteq> None \<and> fs = [])\<rparr>, q1))"

section \<open>The probe\<close>

text \<open>
  What the network does to one request is a list of events, each with the clock reading
  (\<open>new Date().getTime()\<close>) its handler takes: the socket's \<open>lookup\<close>, \<open>connect\<close> and
  \<open>secureConnect\<close>, the arrival of the response (the callback of \<open>request\<close>, which
  registers the three handlers of the response), the response's \<open>readable\<close>, \<open>data\<close> and
  \<open>end\<close>, and the request's \<open>error\<close>. A leg is the clock reading at its start, its
  events, and the socket of the request when the probe ends on this leg.
\<close>

datatype event =
    Lookup int
  | Connect int
  | SecureConnect int
  | Response response
  | Readable int
  | Data string
  | End int
  | Error

record leg =
  leg_start :: int
  leg_events :: "event list"
  leg_connection :: "connection option"

text \<open>The variables one call of \<open>probeHttp\<close> closes over.\<close>

record leg_local =
  l_times :: times
  l_res :: "response option"
  l_body :: string

text \<open>\<open>a || b\<close> on two milestones and \<open>t - m\<close> with a milestone that may be undefined.\<close>

definition time_or :: "int option \<Rightarrow> int option \<Rightarrow> int option" where
  "time_or a b = (case a of None \<Rightarrow> b | Some t \<Rightarrow> if t \<noteq> 0 then Some t else b)"

definition time_sub :: "int \<Rightarrow> int option \<Rightarrow> jsnum" where
  "time_sub t m = (case m of None \<Rightarrow> NaN | Some u \<Rightarrow> Num (of_int (t - u)))"

text \<open>
  The handlers of the events that do not settle the promise. The handlers of the
  response exist only once the response has arrived.
\<close>

fun handle :: "event \<Rightarrow> leg_local \<times> probe_state \<Rightarrow> leg_local \<times> probe_state" where
  "handle (Lookup t) (l, st) =
     (l\<lparr>l_times := (l_times l)\<lparr>dnsLookupAt := Some t\<rparr>\<rparr>,
      increase st ''dnsLookup'' (Num (of_int (t - start (l_times l)))))"
| "handle (Connect t) (l, st) =
     (l\<lparr>l_times := (l_times l)\<lparr>tcpConnectionAt := Some t\<rparr>\<rparr>,
      increase st ''tcpConnection''
        (time_sub t (time_or (dnsLookupAt (l_times l)) (Some (start (l_times l))))))"
| "handle (SecureConnect t) (l, st) =
     (l\<lparr>l_times := (l_times l)\<lparr>tlsHandshakeAt := Some t\<rparr>\<rparr>,
      increase st ''tlsHandshake'' (time_sub t (tcpConnectionAt (l_times l))))"
| "handle (Response r) (l, st) = (l\<lparr>l_res := Some r, l_body := []\<rparr>, st)"
| "handle (Readable t) (l, st) =
     (if l_res l \<noteq> None \<and> counters st ''firstByte'' = None
      then (l\<lparr>l_times := (l_times l)\<lparr>firstByteAt := Some t\<rparr>\<rparr>,
            increase st ''firstByte''
              (time_sub t (time_or (tlsHandshakeAt (l_times l)) (tcpConnectionAt (l_times l)))))
      else (l, st))"
| "handle (Data chunk) (l, st) =
     (if l_res l \<noteq> None then (l\<lparr>l_body := l_body l @ chunk\<rparr>, st) else (l, st))"
| "handle (End t) (l, st) = (l, st)"
| "handle Error (l, st) = (l, st)"

text \<open>
  One leg up to the event that settles it: \<open>error\<close>, or \<open>end\<close> of the response, whose
  handler first adds the content transfer. A list of events that holds neither leaves
  the promise pending.
\<close>

datatype leg_outcome = Pending | Failed | Ended response

fun run_leg :: "event list \<Rightarrow> leg_local \<times> probe_state \<Rightarrow> leg_outcome \<times> leg_local \<times> probe_state" where
  "run_leg [] (l, st) = (Pending, l, st)"
| "run_leg (Error # es) (l, st) = (Failed, l, st)"
| "run_leg (End t # es) (l, st) =
     (case l_res l of
        None \<Rightarrow> run_leg es (l, st)
      | Some r \<Rightarrow>
          (Ended r, l,
           (case firstByteAt (l_times l) of
              None \<Rightarrow> st
            | Some fb \<Rightarrow> increase st ''contentTransfer'' (Num (of_int (t - fb))))))"
| "run_leg (e # es) (l, st) = run_leg es (handle e (l, st))"

text \<open>
  How the promise of \<open>probeHttp\<close> ends: resolved with a result, rejected (an exception in
  the executor of the promise, as \<open>url.parse(target)\<close> on a target that is no string),
  or left pending by an exception that escapes the \<open>end\<close> or \<open>error\<close> handler (an
  exception of a validator). The state and the query are returned as the probe leaves
  them.
\<close>

datatype outcome = Resolved probe_result | Rejected js_error | Uncaught js_error

record settled =
  s_outcome :: outcome
  s_state :: probe_state
  s_query :: query_bag

definition finish ::
  "js_error + (probe_result \<times> query_bag) \<Rightarrow> probe_state \<Rightarrow> query_bag \<Rightarrow> settled" where
  "finish r st q =
     (case r of
        Inl e \<Rightarrow> \<lparr>s_outcome = Uncaught e, s_state = st, s_query = q\<rparr>
      | Inr (res, q1) \<Rightarrow> \<lparr>s_outcome = Resolved res, s_state = st, s_query = q1\<rparr>)"

text \<open>The request options and the variables of a fresh call.\<close>

definition make_reqOptions :: "js_env \<Rightarrow> query_bag \<Rightarrow> parsed_url \<Rightarrow> reqOptions" where
  "make_reqOptions E q u =
     \<lparr>req_method = js_or (http_method q) (JStr ''GET''),
      req_url = u,
      req_agent = False,
      req_headers = parseHttpParamsQueryParam E (header q),
      req_rejectUnauthorized = (\<not> truthy (parseBooleanQueryParam E (allowUnauthorized q) JUndefined))\<rparr>"

definition fresh_local :: "int \<Rightarrow> leg_local" where
  "fresh_local t0 =
     \<lparr>l_times = \<lparr>start = t0, dnsLookupAt = None, tcpConnectionAt = None,
                  tlsHandshakeAt = None, firstByteAt = None\<rparr>,
      l_res = None, l_body = []\<rparr>"

text \<open>\<open>res.headers.location\<close>.\<close>

definition location :: "response \<Rightarrow> jsval" where
  "location res = (case map_of (headers res) ''location'' of None \<Rightarrow> JUndefined | Some loc \<Rightarrow> JStr loc)"

text \<open>
  \<open>probeHttp(target, ctx, state)\<close>, given what the network does to each request of the
  chain in turn. \<open>None\<close>: the promise is still pending when the events at hand are used
  up. The executor of the promise throws, and the promise is rejected, when
  \<open>url.parse(target)\<close> throws and when \<open>target.match\<close> is called on a target that
  is no string.
\<close>

fun probeHttp :: "js_env \<Rightarrow> jsval \<Rightarrow> query_bag \<Rightarrow> probe_state \<Rightarrow> leg list \<Rightarrow> settled option" where
  "probeHttp E target q st [] = None"
| "probeHttp E target q st (lg # lgs) =
     (let follow = parseBooleanQueryParam E (followRedirects q) (JBool True)
      in case url_parse E target of
           Inl e \<Rightarrow> Some \<lparr>s_outcome = Rejected e, s_state = st, s_query = q\<rparr>
         | Inr u \<Rightarrow>
             let st1 = st\<lparr>requests := requests st @ [make_reqOptions E q u]\<rparr>
             in case target of
                  JStr t \<Rightarrow>
                    (case run_leg (leg_events lg) (fresh_local (leg_start lg), st1) of
                       (Pending, l, st2) \<Rightarrow> None
                     | (Failed, l, st2) \<Rightarrow>
                         Some (finish (getHttpMetrics E q (leg_connection lg) None st2) st2 q)
                     | (Ended res, l, st2) \<Rightarrow>
                         if truthy follow \<and> 301 \<le> statusCode res \<and> statusCode res \<le> 302
                         then probeHttp E (location res) q (increase st2 ''redirects'' (Num 1)) lgs
                         else Some (finish
                                (getHttpMetrics E q (leg_connection lg)
                                   (Some (res\<lparr>body := JStr (l_body l)\<rparr>)) st2) st2 q))
                | _ \<Rightarrow> Some \<lparr>s_outcome = Rejected TypeError, s_state = st1, s_query = q\<rparr>)"

section \<open>What a leg ends with\<close>



section \<open>Reading a result\<close>

text \<open>The values of the metrics of a given name, in the order of the list.\<close>

definition metric_values :: "string \<Rightarrow> probe_result \<Rightarrow> jsval list" where
  "metric_values n r = map metric_value (filter (\<lambda>m. metric_name m = n) (metrics r))"

text \<open>The value of the duration metric tagged with a given phase.\<close>

definition duration_values :: "string \<Rightarrow> probe_result \<Rightarrow> jsval list" where
  "duration_values phase r =
     map metric_value
       (filter (\<lambda>m. metric_name m = ''httpDuration'' \<and> metric_tags m = Some [(''phase'', JStr phase)])
          (metrics r))"

section \<open>A sample environment\<close>

text \<open>
  One choice of the library functions, used only where a statement is evaluated on a
  concrete input: \<open>parseBooleanQueryParam\<close> gives \<open>true\<close> on a true string,
  \<open>false\<close> on a false string and the default otherwise, \<open>url.parse\<close> splits \<open>scheme://host/path\<close> and throws on what is no string,
  \<open>url.format\<close> gives the text back, a regular expression is read as plain text to be
  found in the body, and a number prints as a decimal integer.
\<close>

function nat_digits :: "nat \<Rightarrow> string" where
  "nat_digits n = (if n < 10 then [char_of (48 + n)] else nat_digits (n div 10) @ [char_of (48 + n mod 10)])"
  by pat_completeness auto
termination
  by (relation "measure id") auto

definition sample_number_to_string :: "jsnum \<Rightarrow> string" where
  "sample_number_to_string n =
     (case n of
        NaN \<Rightarrow> ''NaN''
      | PInf \<Rightarrow> ''Infinity''
      | NInf \<Rightarrow> ''-Infinity''
      | Num a \<Rightarrow> (if a < 0 then ''-'' else []) @ nat_digits (nat \<bar>\<lfloor>a\<rfloor>\<bar>))"

definition sample_url_parse :: "jsval \<Rightarrow> js_error + parsed_url" where
  "sample_url_parse v =
     (case v of
        JStr s \<Rightarrow>
          (let proto = takeWhile (\<lambda>c. c \<noteq> CHR '':'') s;
               r = drop (length proto + 3) s;
               host = takeWhile (\<lambda>c. c \<noteq> CHR ''/'') r;
               path = dropWhile (\<lambda>c. c \<noteq> CHR ''/'') r
           in Inr \<lparr>url_protocol = Some (proto @ '':''), url_host = Some host,
                    url_pathname = Some (if path = [] then ''/'' else path), url_href = s\<rparr>)
      | _ \<Rightarrow> Inl TypeError)"

fun contains :: "string \<Rightarrow> string \<Rightarrow> bool" where
  "contains p [] = (p = [])"
| "contains p (c # s) = (starts_with p (c # s) \<or> contains p s)"

definition sample_regexp_match :: "js_env \<Rightarrow> jsval \<Rightarrow> js_error + (string \<Rightarrow> string option)" where
  "sample_regexp_match E p =
     Inr (\<lambda>b. if contains (to_string E p) b then Some (to_string E p) else None)"

definition sample_parseBoolean :: "jsval \<Rightarrow> jsval \<Rightarrow> jsval" where
  "sample_parseBoolean v defaultValue =
     (if isTrueString v then JBool True else if isFalseString v then JBool False else defaultValue)"

definition base_env :: js_env where
  "base_env =
     \<lparr>parseBooleanQueryParam = sample_parseBoolean,
      parseHttpParamsQueryParam = (\<lambda>v. v),
      url_parse = sample_url_parse,
      url_format = url_href,
      regexp_match = (\<lambda>p. Inl SyntaxError),
      number_to_string = sample_number_to_string,
      moment_utc_format = (\<lambda>v. case v of JStr s \<Rightarrow> s | _ \<Rightarrow> ''Invalid date'')\<rparr>"

definition sample_env :: js_env where
  "sample_env = base_env\<lparr>regexp_match := sample_regexp_match base_env\<rparr>"

text \<open>A query without any parameter, and a response with no header and an empty body.\<close>

definition no_query :: query_bag where
  "no_query =
     \<lparr>followRedirects = JUndefined, http_method = JUndefined, header = JUndefined,
      allowUnauthorized = JUndefined, expectHttpRedirects = JUndefined,
      expectHttpRedirectTo = JUndefined, expectHttpResponseBodyMatch = JUndefined,
      expectHttpResponseBodyMismatch = JUndefined, expectHttpSecure = JUndefined,
      expectHttpStatusCode = JUndefined, expectHttpVersion = JUndefined\<rparr>"

definition plain_response :: "int \<Rightarrow> response" where
  "plain_response code =
     \<lparr>statusCode = code, headers = [], httpVersion = ''1.1'', body = JUndefined\<rparr>"


definition resolved :: "settled option \<Rightarrow> probe_result option" where
  "resolved x =
     (case x of
        None \<Rightarrow> None
      | Some s \<Rightarrow> (case s_outcome s of Resolved r \<Rightarrow> Some r | _ \<Rightarrow> None))"

text \<open>Some legs: what the network does to one request.\<close>

definition leg_ok :: leg where
  "leg_ok =
     \<lparr>leg_start = 1000,
      leg_events = [Lookup 1002, Connect 1005, Response (plain_response 200),
                    Readable 1010, Data ''OK'', End 1012],
      leg_connection = Some PlainSocket\<rparr>"



text \<open>
  What \<open>validateHttpStatusCode\<close> leaves of a query: an empty array of expected codes
  has received the two defaults.
\<close>

definition defaults_pushed :: "query_bag \<Rightarrow> query_bag" where
  "defaults_pushed q =
     (if expectHttpStatusCode q = JArr []
      then q\<lparr>expectHttpStatusCode := JArr [JStr ''2xx'', JStr ''3xx'']\<rparr> else q)"

section \<open>The specification's side\<close>







definition leg_moved :: leg where
  "leg_moved =
     \<lparr>leg_start = 100,
      leg_events = [Lookup 102, Connect 105,
                    Response ((plain_response 301)\<lparr>headers := [(''location'', ''http://b/'')]\<rparr>),
                    Readable 110, End 113],
      leg_connection = Some PlainSocket\<rparr>"

text \<open>
  The socket events of a leg in the order of the transport: the lookup (absent for an
  address), the connection, the TLS handshake (secure targets only).
\<close>

definition socket_events :: "int option \<Rightarrow> int \<Rightarrow> int option \<Rightarrow> event list" where
  "socket_events lookup tc tls =
     (case lookup of None \<Rightarrow> [] | Some t0 \<Rightarrow> [Lookup t0])
     @ [Connect tc]
     @ (case tls of None \<Rightarrow> [] | Some ts \<Rightarrow> [SecureConnect ts])"

text \<open>The events that can settle the promise.\<close>

fun settles :: "event \<Rightarrow> bool" where
  "settles (End t) = True"
| "settles Error = True"
| "settles e = False"

definition leg_moved_tls :: leg where
  "leg_moved_tls =
     \<lparr>leg_start = 100,
      leg_events = [Lookup 102, Connect 105, SecureConnect 108,
                    Response ((plain_response 301)\<lparr>headers := [(''location'', ''http://b/'')]\<rparr>),
                    Readable 110, End 113],
      leg_connection = Some (TlsSocket None)\<rparr>"

section \<open>Properties\<close>

subsection \<open>Legs\<close>





subsection \<open>One call of the probe\<close>

lemma redirect_codes: "(301 \<le> c \<and> c \<le> 302) = (c \<in> {301, 302 :: int})"
  by auto

lemma probeHttp_Rejected:
  "url_parse E target = Inl e \<Longrightarrow>
   probeHttp E target q st (lg # lgs) = Some \<lparr>s_outcome = Rejected e, s_state = st, s_query = q\<rparr>"
  by simp

lemma probeHttp_not_string:
  assumes "url_parse E target = Inr u" and "\<And>t. target \<noteq> JStr t"
  shows "probeHttp E target q st (lg # lgs)
           = Some \<lparr>s_outcome = Rejected TypeError,
                    s_state = st\<lparr>requests := requests st @ [make_reqOptions E q u]\<rparr>,
                    s_query = q\<rparr>"
  using assms by (cases target) auto

lemma probeHttp_Pending:
  assumes "url_parse E (JStr t) = Inr u"
    and "run_leg (leg_events lg)
           (fresh_local (leg_start lg), st\<lparr>requests := requests st @ [make_reqOptions E q u]\<rparr>)
         = (Pending, l, st2)"
  shows "probeHttp E (JStr t) q st (lg # lgs) = None"
  using assms by simp

lemma probeHttp_Failed:
  assumes "url_parse E (JStr t) = Inr u"
    and "run_leg (leg_events lg)
           (fresh_local (leg_start lg), st\<lparr>requests := requests st @ [make_reqOptions E q u]\<rparr>)
         = (Failed, l, st2)"
  shows "probeHttp E (JStr t) q st (lg # lgs)
           = Some (finish (getHttpMetrics E q (leg_connection lg) None st2) st2 q)"
  using assms by simp

lemma probeHttp_Ended:
  assumes "url_parse E (JStr t) = Inr u"
    and "run_leg (leg_events lg)
           (fresh_local (leg_start lg), st\<lparr>requests := requests st @ [make_reqOptions E q u]\<rparr>)
         = (Ended r, l, st2)"
  shows "probeHttp E (JStr t) q st (lg # lgs)
           = (if truthy (parseBooleanQueryParam E (followRedirects q) (JBool True))
                 \<and> statusCode r \<in> {301, 302}
              then probeHttp E (location r) q (increase st2 ''redirects'' (Num 1)) lgs
              else Some (finish (getHttpMetrics E q (leg_connection lg)
                                   (Some (r\<lparr>body := JStr (l_body l)\<rparr>)) st2) st2 q))"
  using assms by (simp add: Let_def redirect_codes del: insert_iff)

declare probeHttp.simps(2) [simp del]

subsection \<open>The security expectation\<close>


subsection \<open>Transport failure\<close>




subsection \<open>The expected number of redirects\<close>

lemma validateHttpRedirects_zero:
  "validateHttpRedirects E (q\<lparr>expectHttpRedirects := JStr ''0''\<rparr>)
      (st\<lparr>counters := (counters st)(''redirects'' := None)\<rparr>) []
   = [\<lparr>actual = Some JUndefined, cause = ''invalidHttpRedirectCount'',
        description = ''Expected the HTTP request to be redirected exactly ''
           @ number_to_string E (Num 0) @ '' times'',
        expected = Some (JNum (Num 0))\<rparr>]"
proof -
  have "string_to_number ''0'' = Num 0" by code_simp
  then show ?thesis
    by (simp add: validateHttpRedirects_def counter_val_def num_eq_def Let_def)
qed

text \<open>
  C5. An expected count of \<open>0\<close> against a probe that followed no redirect: the target
  answers 200 at once, \<open>state.redirects\<close> was never written and is \<open>undefined\<close>, and
  \<open>undefined !== 0\<close> holds. The validator records \<open>invalidHttpRedirectCount\<close> (actual
  \<open>undefined\<close>, expected \<open>0\<close>) and the probe fails, while its own redirect metric
  reads \<open>0\<close>.
\<close>

theorem expect_zero_redirects_fails:
  "map_option (\<lambda>r. (success r, map cause (failures r), map actual (failures r),
                     map expected (failures r), metric_values ''httpRedirects'' r))
     (resolved (probeHttp sample_env (JStr ''http://a/'')
        (no_query\<lparr>expectHttpRedirects := JStr ''0''\<rparr>) empty_state [leg_ok]))
   = Some (False, [''invalidHttpRedirectCount''], [Some JUndefined], [Some (JNum (Num 0))],
           [JNum (Num 0)])"
  by code_simp

subsection \<open>The content length\<close>





subsection \<open>An expected redirect target that cannot be parsed\<close>





subsection \<open>The validators and their inputs\<close>

lemma fst_validateHttpStatusCode:
  "fst (validateHttpStatusCode E q res fs) = defaults_pushed q"
  by (cases "expectHttpStatusCode q")
     (auto simp: validateHttpStatusCode_def defaults_pushed_def Let_def)

text \<open>
  A run of the validators that ends without an exception leaves the query with the
  defaults pushed; a second run on what the first has left gives the same failures and
  changes nothing more, and a query whose expected codes are not an empty array is left
  as it is. The response and the state are only read.
\<close>

lemma validators_query:
  "validators E q res st = Inr (q1, fs) \<Longrightarrow> q1 = defaults_pushed q"
  using fst_validateHttpStatusCode[of E q res]
  by (auto simp: validators_def Let_def case_prod_beta split: sum.splits)

lemma validators_defaults_pushed:
  "validators E (defaults_pushed q) res st = validators E q res st"
proof (cases "expectHttpStatusCode q = JArr []")
  case False
  then show ?thesis by (simp add: defaults_pushed_def)
next
  case True
  let ?q = "q\<lparr>expectHttpStatusCode := JArr [JStr ''2xx'', JStr ''3xx'']\<rparr>"
  have a: "validateHttpRedirects E ?q st fs = validateHttpRedirects E q st fs" for fs
    by (simp add: validateHttpRedirects_def Let_def split: sum.splits)
  have b: "validateHttpRedirectTarget E ?q st fs = validateHttpRedirectTarget E q st fs" for fs
    by (simp add: validateHttpRedirectTarget_def Let_def split: sum.splits)
  have c: "validateHttpResponseBody E ?q res fs = validateHttpResponseBody E q res fs" for fs
    by (simp add: validateHttpResponseBody_def Let_def split: sum.splits)
  have d: "validateHttpSecurity E ?q st fs = validateHttpSecurity E q st fs" for fs
    by (simp add: validateHttpSecurity_def Let_def split: sum.splits)
  have e: "validateHttpStatusCode E ?q res fs = validateHttpStatusCode E q res fs" for fs
    using True by (simp add: validateHttpStatusCode_def Let_def split: sum.splits)
  show ?thesis
    using True by (simp add: defaults_pushed_def validators_def a b c d e Let_def split: sum.splits)
qed

lemma validators_rerun:
  assumes "validators E q res st = Inr (q1, fs)"
  shows "validators E q1 res st = Inr (q1, fs)"
  using assms validators_query[OF assms] validators_defaults_pushed[of E q res st] by simp

lemma validators_leave_query:
  assumes "validators E q res st = Inr (q1, fs)" and "expectHttpStatusCode q \<noteq> JArr []"
  shows "q1 = q"
  using validators_query[OF assms(1)] assms(2) by (simp add: defaults_pushed_def)

text \<open>
  C9. When \<open>expectHttpStatusCode\<close> is an empty array, the validators write into the
  query: after the run the array holds \<open>'2xx'\<close> and \<open>'3xx'\<close>. (Nothing else is given in
  this query, so no validator throws.)
\<close>

theorem empty_expected_codes_mutated:
  "map_sum id fst (validators E (no_query\<lparr>expectHttpStatusCode := JArr []\<rparr>) res st)
     = Inr (no_query\<lparr>expectHttpStatusCode := JArr [JStr ''2xx'', JStr ''3xx'']\<rparr>)"
proof -
  let ?q = "no_query\<lparr>expectHttpStatusCode := JArr []\<rparr>"
  have "validateHttpRedirectTarget E ?q st fs = Inr fs" for fs
    by (simp add: validateHttpRedirectTarget_def no_query_def)
  moreover have "validateHttpResponseBody E ?q res fs = Inr fs" for fs
    by (simp add: validateHttpResponseBody_def no_query_def toArray_def)
  ultimately show ?thesis
    using fst_validateHttpStatusCode[of E ?q res]
    by (simp add: validators_def Let_def case_prod_beta defaults_pushed_def)
qed

subsection \<open>The expected status codes\<close>







text \<open>The example of the specification: \<open>404\<close> expected, 200 returned.\<close>

lemma status_404_expected_200_returned:
  "map_option (\<lambda>r. (success r, map cause (failures r)))
     (resolved (probeHttp sample_env (JStr ''http://a/'')
        (no_query\<lparr>expectHttpStatusCode := JArr [JStr ''404'']\<rparr>) empty_state [leg_ok]))
   = Some (False, [''invalidHttpStatusCode''])"
  by code_simp

subsection \<open>What a leg does to the state\<close>

lemma increase_counters:
  "counters (increase st k a) k' =
     (if k' = k
      then Some (num_add (case counters st k of None \<Rightarrow> Num 0
                          | Some n \<Rightarrow> if truthy (JNum n) then n else Num 0) a)
      else counters st k')"
  by (simp add: increase_def)




lemma run_leg_invariant:
  assumes "\<And>e l st. I st \<Longrightarrow> I (snd (handle e (l, st)))"
    and "\<And>st a. I st \<Longrightarrow> I (increase st ''contentTransfer'' a)"
    and "I st"
  shows "I (snd (snd (run_leg es (l, st))))"
  using assms(3)
proof (induction es arbitrary: l st)
  case Nil
  then show ?case by simp
next
  case (Cons e es)
  have step: "I (snd (snd (run_leg es (handle e (l, st)))))"
    using Cons.IH[where st = "snd (handle e (l, st))" and l = "fst (handle e (l, st))"]
      assms(1)[OF Cons.prems, of e l]
    by simp
  show ?case
  proof (cases e)
    case (End t)
    then show ?thesis using Cons assms(2) by (simp split: option.splits)
  qed (use step Cons.prems in simp_all)
qed



subsection \<open>Redirects\<close>





lemma finish_state: "s_state (finish x st q) = st"
  by (auto simp: finish_def split: sum.splits prod.splits)





subsection \<open>The first byte\<close>

lemma handle_firstByte:
  "counters st ''firstByte'' = Some v \<Longrightarrow> counters (snd (handle e (l, st))) ''firstByte'' = Some v"
  by (cases e) (simp_all add: increase_counters)

lemma run_leg_firstByte:
  "counters st ''firstByte'' = Some v \<Longrightarrow>
   counters (snd (snd (run_leg es (l, st)))) ''firstByte'' = Some v"
  by (rule run_leg_invariant[where I = "\<lambda>s. counters s ''firstByte'' = Some v"])
     (simp_all add: handle_firstByte increase_counters)

lemma probeHttp_firstByte:
  assumes "probeHttp E target q st legs = Some s" and "counters st ''firstByte'' = Some v"
  shows "counters (s_state s) ''firstByte'' = Some v"
  using assms
proof (induction legs arbitrary: target st)
  case Nil
  then show ?case by simp
next
  case (Cons lg lgs)
  show ?case
  proof (cases "url_parse E target")
    case (Inl e)
    then show ?thesis using Cons.prems probeHttp_Rejected[OF Inl, of q st lg lgs] by auto
  next
    case (Inr u)
    let ?st1 = "st\<lparr>requests := requests st @ [make_reqOptions E q u]\<rparr>"
    show ?thesis
    proof (cases "\<exists>tg. target = JStr tg")
    case False
    then have "probeHttp E target q st (lg # lgs)
                 = Some \<lparr>s_outcome = Rejected TypeError, s_state = ?st1, s_query = q\<rparr>"
      using probeHttp_not_string[OF Inr] by auto
    then show ?thesis using Cons.prems by auto
    next
    case True
    then obtain tg where tg: "target = JStr tg" by blast
    note parsed = Inr[unfolded tg]
    note settled = Cons.prems(1)[unfolded tg]
    obtain out l st2 where run:
      "run_leg (leg_events lg) (fresh_local (leg_start lg), ?st1) = (out, l, st2)"
      by (cases "run_leg (leg_events lg) (fresh_local (leg_start lg), ?st1)") auto
    have fb2: "counters st2 ''firstByte'' = Some v"
      using run_leg_firstByte[of ?st1 v "leg_events lg" "fresh_local (leg_start lg)"] run Cons.prems(2)
      by simp
    show ?thesis
    proof (cases out)
      case Pending
      then show ?thesis using settled probeHttp_Pending[OF parsed] run by simp
    next
      case Failed
      then show ?thesis
        using settled probeHttp_Failed[OF parsed] run fb2 by (auto simp: finish_state)
    next
      case (Ended rs)
      note step = probeHttp_Ended[OF parsed run[unfolded Ended], where lgs = lgs]
      show ?thesis
      proof (cases "truthy (parseBooleanQueryParam E (followRedirects q) (JBool True))
                    \<and> statusCode rs \<in> {301, 302}")
        case True
        then have rec: "probeHttp E (location rs) q (increase st2 ''redirects'' (Num 1)) lgs = Some s"
          using step settled by simp
        have "counters (increase st2 ''redirects'' (Num 1)) ''firstByte'' = Some v"
          using fb2 by (simp add: increase_counters)
        then show ?thesis using Cons.IH[OF rec] by simp
      next
        case False
        then have "s = finish (getHttpMetrics E q (leg_connection lg)
                                 (Some (rs\<lparr>body := JStr (l_body l)\<rparr>)) st2) st2 q"
          using step settled by auto
        then show ?thesis using fb2 by (simp add: finish_state)
      qed
    qed
    qed
  qed
qed

lemma run_leg_append:
  "list_all (\<lambda>e. \<not> settles e) pre \<Longrightarrow>
   run_leg (pre @ es) (l, st) = run_leg es (fold handle pre (l, st))"
proof (induction pre arbitrary: l st)
  case Nil
  then show ?case by simp
next
  case (Cons e pre)
  have "run_leg (pre @ es) (handle e (l, st)) = run_leg es (fold handle pre (handle e (l, st)))"
    using Cons.IH[of "fst (handle e (l, st))" "snd (handle e (l, st))"] Cons.prems by simp
  then show ?case using Cons.prems by (cases e) simp_all
qed

lemma first_byte_on_leg:
  assumes "counters st ''firstByte'' = None"
    and "0 < chain_start" and "chain_start \<le> t0" and "t0 \<le> tc"
    and "\<forall>ts\<in>set_option tls. tc \<le> ts"
  shows "counters (snd (fold handle (socket_events lookup tc tls @ [Response r, Readable t])
                          (fresh_local t0, st))) ''firstByte''
         = Some (Num (of_int (t - Max (insert chain_start (insert tc (set_option tls))))))"
proof (cases tls)
  case None
  have "Max {chain_start, tc} = tc" using assms(3,4) by simp
  then show ?thesis
    using None assms(1,2,3,4)
    by (cases lookup)
       (simp_all add: socket_events_def fresh_local_def increase_counters time_or_def time_sub_def)
next
  case (Some ts)
  then have "tc \<le> ts" using assms(5) by simp
  then have "Max {chain_start, tc, ts} = ts" "ts \<noteq> 0" using assms(2,3,4) by simp_all
  then show ?thesis
    using Some assms(1)
    by (cases lookup)
       (simp_all add: socket_events_def fresh_local_def increase_counters time_or_def time_sub_def)
qed

text \<open>
  C6. The first-byte interval is recorded once per chain. On a state that has no
  \<open>firstByte\<close> yet, take a leg whose socket events come in the order of the transport
  (connection at \<open>tc\<close>, then the TLS handshake at \<open>ts\<close> for a secure target, neither
  earlier than the start of the chain, clock readings positive), followed by the response
  and its first \<open>readable\<close> at \<open>t\<close>. Whatever comes after on this leg and on the
  later legs, further \<open>readable\<close> events included, a probe that settles leaves
  \<open>state.firstByte\<close> at \<open>t\<close> minus the latest of the chain start, \<open>tc\<close> and
  \<open>ts\<close>: the interval is from that milestone to the first \<open>readable\<close>, and nothing is
  added to it afterwards.
\<close>

theorem first_byte_recorded_once:
  assumes "counters st ''firstByte'' = None"
    and "leg_events lg = socket_events lookup tc tls @ Response r # Readable t # rest"
    and "0 < chain_start" and "chain_start \<le> leg_start lg" and "leg_start lg \<le> tc"
    and "\<forall>ts\<in>set_option tls. tc \<le> ts"
    and "url_parse E (JStr tg) = Inr u"
    and "probeHttp E (JStr tg) q st (lg # lgs) = Some s"
  shows "counters (s_state s) ''firstByte''
           = Some (Num (of_int (t - Max (insert chain_start (insert tc (set_option tls))))))"
proof -
  let ?v = "Num (of_int (t - Max (insert chain_start (insert tc (set_option tls)))))"
  let ?st1 = "st\<lparr>requests := requests st @ [make_reqOptions E q u]\<rparr>"
  let ?pre = "socket_events lookup tc tls @ [Response r, Readable t]"
  have ev: "leg_events lg = ?pre @ rest" using assms(2) by simp
  have ns: "list_all (\<lambda>e. \<not> settles e) ?pre"
    by (simp add: socket_events_def split: option.splits)
  have "counters ?st1 ''firstByte'' = None" using assms(1) by simp
  then have fb: "counters (snd (fold handle ?pre (fresh_local (leg_start lg), ?st1))) ''firstByte''
                   = Some ?v"
    using first_byte_on_leg[OF _ assms(3,4,5,6)] by blast
  obtain l1 st1 where mid: "fold handle ?pre (fresh_local (leg_start lg), ?st1) = (l1, st1)"
    by (cases "fold handle ?pre (fresh_local (leg_start lg), ?st1)") auto
  then have run: "run_leg (leg_events lg) (fresh_local (leg_start lg), ?st1) = run_leg rest (l1, st1)"
    unfolding ev using run_leg_append[OF ns] by simp
  obtain out l st2 where r2: "run_leg rest (l1, st1) = (out, l, st2)"
    by (cases "run_leg rest (l1, st1)") auto
  have fb2: "counters st2 ''firstByte'' = Some ?v"
    using run_leg_firstByte[of st1 ?v rest l1] fb mid r2 by simp
  note run' = run[unfolded r2]
  show ?thesis
  proof (cases out)
    case Pending
    then show ?thesis using assms(8) probeHttp_Pending[OF assms(7)] run' by simp
  next
    case Failed
    then show ?thesis
      using assms(8) probeHttp_Failed[OF assms(7)] run' fb2 by (auto simp: finish_state)
  next
    case (Ended rs)
    note step = probeHttp_Ended[OF assms(7) run'[unfolded Ended], where lgs = lgs]
    show ?thesis
    proof (cases "truthy (parseBooleanQueryParam E (followRedirects q) (JBool True))
                  \<and> statusCode rs \<in> {301, 302}")
      case True
      then have rec: "probeHttp E (location rs) q (increase st2 ''redirects'' (Num 1)) lgs = Some s"
        using step assms(8) by simp
      have "counters (increase st2 ''redirects'' (Num 1)) ''firstByte'' = Some ?v"
        using fb2 by (simp add: increase_counters)
      then show ?thesis using probeHttp_firstByte[OF rec] by simp
    next
      case False
      then have "s = finish (getHttpMetrics E q (leg_connection lg)
                               (Some (rs\<lparr>body := JStr (l_body l)\<rparr>)) st2) st2 q"
        using step assms(8) by auto
      then show ?thesis using fb2 by (simp add: finish_state)
    qed
  qed
qed

theorem first_byte_recorded_once_witness:
  "counters empty_state ''firstByte'' = None
   \<and> leg_events leg_moved_tls
       = socket_events (Some 102) 105 (Some 108)
         @ Response ((plain_response 301)\<lparr>headers := [(''location'', ''http://b/'')]\<rparr>)
           # Readable 110 # [End 113]
   \<and> (0::int) < 100 \<and> 100 \<le> leg_start leg_moved_tls \<and> leg_start leg_moved_tls \<le> 105
   \<and> (\<forall>ts\<in>set_option (Some (108::int)). 105 \<le> ts) = True
   \<and> Readable 1010 \<in> set (leg_events leg_ok)
   \<and> counters (s_state (the (probeHttp sample_env (JStr ''https://a/'') no_query empty_state
                                  [leg_moved_tls, leg_ok]))) ''firstByte''
       = Some (Num 2)"
proof -
  let ?p = "probeHttp sample_env (JStr ''https://a/'') no_query empty_state [leg_moved_tls, leg_ok]"
  have h1: "counters empty_state ''firstByte'' = None" by (simp add: empty_state_def)
  have h2: "leg_events leg_moved_tls
       = socket_events (Some 102) 105 (Some 108)
         @ Response ((plain_response 301)\<lparr>headers := [(''location'', ''http://b/'')]\<rparr>)
           # Readable 110 # [End 113]"
    by (simp add: leg_moved_tls_def socket_events_def)
  have h3: "(0::int) < 100" by simp
  have h4: "100 \<le> leg_start leg_moved_tls" by (simp add: leg_moved_tls_def)
  have h5: "leg_start leg_moved_tls \<le> 105" by (simp add: leg_moved_tls_def)
  have h6: "\<forall>ts\<in>set_option (Some (108::int)). 105 \<le> ts" by simp
  have h7: "url_parse sample_env (JStr ''https://a/'')
     = Inr \<lparr>url_protocol = Some ''https:'', url_host = Some ''a'', url_pathname = Some ''/'',
             url_href = ''https://a/''\<rparr>"
    by code_simp
  have "\<not> Option.is_none ?p" by code_simp
  then have h8: "?p = Some (the ?p)" by (simp add: Option.is_none_def)
  have "counters (s_state (the ?p)) ''firstByte''
          = Some (Num (of_int (110 - Max (insert 100 (insert 105 (set_option (Some 108)))))))"
    by (rule first_byte_recorded_once[OF h1 h2 h3 h4 h5 h6 h7 h8])
  moreover have "Readable 1010 \<in> set (leg_events leg_ok)"
    by (simp add: leg_ok_def)
  ultimately show ?thesis using h1 h2 h3 h4 h5 by simp
qed

subsection \<open>Durations over a chain\<close>

text \<open>
  Once a first byte is recorded in the state, a leg that starts afterwards records no
  first byte of its own, so its \<open>end\<close> handler adds no content transfer.
\<close>

lemma handle_after_first_byte:
  assumes "counters st ''firstByte'' = Some v" and "firstByteAt (l_times l) = None"
  shows "counters (snd (handle e (l, st))) ''firstByte'' = Some v
       \<and> firstByteAt (l_times (fst (handle e (l, st)))) = None
       \<and> counters (snd (handle e (l, st))) ''contentTransfer'' = counters st ''contentTransfer''"
  using assms by (cases e) (simp_all add: increase_counters)

lemma later_leg_adds_no_content_transfer:
  assumes "counters st ''firstByte'' = Some v" and "firstByteAt (l_times l) = None"
  shows "counters (snd (snd (run_leg es (l, st)))) ''contentTransfer''
           = counters st ''contentTransfer''"
  using assms
proof (induction es arbitrary: l st)
  case Nil
  then show ?case by simp
next
  case (Cons e es)
  note h = handle_after_first_byte[OF Cons.prems, of e]
  have step: "counters (snd (snd (run_leg es (handle e (l, st))))) ''contentTransfer''
                = counters st ''contentTransfer''"
    using Cons.IH[of "snd (handle e (l, st))" "fst (handle e (l, st))"] h by simp
  show ?case
  proof (cases e)
    case (End t)
    then show ?thesis using Cons by (simp split: option.splits)
  qed (use step in simp_all)
qed

text \<open>
  C1. A chain of two legs: the first answers 301 (first byte 5 ms after the connection,
  3 ms of content transfer), the second 200 (again 5 ms to the first byte, 2 ms of
  content transfer); the lookup takes 2 ms and the connection 3 ms on each. Probed
  alone, each leg reports its own durations. Probed as a chain, the lookup and the
  connection are summed over the legs (4 ms, 6 ms), but the first byte and the content
  transfer are those of the first leg alone (5 ms, 3 ms, not 10 ms and 5 ms):
  \<open>times.firstByteAt\<close> is set under the guard \<open>state.firstByte === undefined\<close>, which
  fails on every leg after the first, and the \<open>end\<close> handler adds the content transfer
  only when \<open>times.firstByteAt\<close> is set.
\<close>

theorem content_transfer_of_first_leg_only:
  "map_option (\<lambda>r. (duration_values ''dnsLookup'' r, duration_values ''tcpConnection'' r,
                     duration_values ''firstByte'' r, duration_values ''contentTransfer'' r))
     (resolved (probeHttp sample_env (JStr ''http://a/'')
        (no_query\<lparr>followRedirects := JStr ''no''\<rparr>) empty_state [leg_moved]))
   = Some ([JNum (Num (2 / 1000))], [JNum (Num (3 / 1000))],
           [JNum (Num (5 / 1000))], [JNum (Num (3 / 1000))])
   \<and> map_option (\<lambda>r. (duration_values ''dnsLookup'' r, duration_values ''tcpConnection'' r,
                     duration_values ''firstByte'' r, duration_values ''contentTransfer'' r))
     (resolved (probeHttp sample_env (JStr ''http://b/'') no_query empty_state [leg_ok]))
   = Some ([JNum (Num (2 / 1000))], [JNum (Num (3 / 1000))],
           [JNum (Num (5 / 1000))], [JNum (Num (2 / 1000))])
   \<and> map_option (\<lambda>r. (duration_values ''dnsLookup'' r, duration_values ''tcpConnection'' r,
                     duration_values ''firstByte'' r, duration_values ''contentTransfer'' r,
                     metric_values ''httpRedirects'' r))
     (resolved (probeHttp sample_env (JStr ''http://a/'') no_query empty_state [leg_moved, leg_ok]))
   = Some ([JNum (Num (4 / 1000))], [JNum (Num (6 / 1000))],
           [JNum (Num (5 / 1000))], [JNum (Num (3 / 1000))], [JNum (Num 1)])"
  by code_simp


end
